theory Spec2Isabelle
  imports Main
begin

section \<open>Python values used by the trivia cog\<close>

text \<open>
  The cog \<^verbatim>\<open>Trivia\<close> of \<^verbatim>\<open>src/bot/cogs/trivia.py\<close> is embedded function by
  function. Strings are byte strings; every character the cog inspects (digits, the colon,
  the line feed) is ASCII. Exceptions are values of \<open>py_error\<close>; a function that may raise
  returns \<open>py_error + 'a\<close> with \<open>Inl\<close> for the exception.
\<close>

datatype py_error =
    ValueError | AttributeError | IndexError | KeyError | TypeError
  | JSONDecodeError | RequestException | HTTPException

subsection \<open>The fragment of \<^verbatim>\<open>re\<close> the cog and \<^verbatim>\<open>strptime\<close> use\<close>

text \<open>
  A backtracking matcher in the order of Python's \<^verbatim>\<open>re\<close>: the result of running a
  pattern from a position is the list of all ways to match, the preferred one first. A
  matcher state is the position reached, the input still unread and the named groups
  captured so far. \<^verbatim>\<open>$\<close> matches at the end of the string and just before a line feed
  that ends the string; \<^verbatim>\<open>^\<close> matches at position 0.
\<close>

datatype regex =
    Lit char
  | Cls "(char \<times> char) list"
  | Seq regex regex
  | Alt regex regex
  | Opt regex
  | Grp string regex
  | Bol
  | Eol

type_synonym mstate = "nat \<times> string \<times> (string \<times> string) list"

definition in_class :: "(char \<times> char) list \<Rightarrow> char \<Rightarrow> bool" where
  "in_class rs c =
     list_ex (\<lambda>(lo, hi). (of_char lo :: nat) \<le> of_char c \<and> (of_char c :: nat) \<le> of_char hi) rs"

fun re_run :: "regex \<Rightarrow> mstate \<Rightarrow> mstate list" where
  "re_run (Lit c) (i, s, g) =
     (case s of [] \<Rightarrow> [] | x # xs \<Rightarrow> if x = c then [(Suc i, xs, g)] else [])"
| "re_run (Cls rs) (i, s, g) =
     (case s of [] \<Rightarrow> [] | x # xs \<Rightarrow> if in_class rs x then [(Suc i, xs, g)] else [])"
| "re_run (Seq a b) st = concat (map (re_run b) (re_run a st))"
| "re_run (Alt a b) st = re_run a st @ re_run b st"
| "re_run (Opt a) st = re_run a st @ [st]"
| "re_run (Grp n a) (i, s, g) =
     map (\<lambda>(j, s', g'). (j, s', (n, take (j - i) s) # g')) (re_run a (i, s, g))"
| "re_run Bol (i, s, g) = (if i = 0 then [(i, s, g)] else [])"
| "re_run Eol (i, s, g) = (if s = [] \<or> s = [CHR 0x0A] then [(i, s, g)] else [])"

text \<open>\<^verbatim>\<open>re.match(pattern, string)\<close>: the first match from position 0, or \<open>None\<close>.\<close>

definition re_match :: "regex \<Rightarrow> string \<Rightarrow> mstate option" where
  "re_match r s = (case re_run r (0, s, []) of [] \<Rightarrow> None | m # _ \<Rightarrow> Some m)"

definition digit :: regex where
  "digit = Cls [(CHR ''0'', CHR ''9'')]"

subsection \<open>\<^verbatim>\<open>Trivia._check_time\<close>\<close>

text \<open>The pattern \<^verbatim>\<open>^([01]?[0-9]|2[0-3]):[0-5][0-9]$\<close>.\<close>

definition check_time_pattern :: regex where
  "check_time_pattern =
     Seq Bol
      (Seq (Alt (Seq (Opt (Cls [(CHR ''0'', CHR ''1'')])) digit)
                (Seq (Lit CHR ''2'') (Cls [(CHR ''0'', CHR ''3'')])))
      (Seq (Lit CHR '':'')
      (Seq (Cls [(CHR ''0'', CHR ''5'')])
      (Seq digit Eol))))"

definition check_time :: "string \<Rightarrow> bool" where
  "check_time time_string = (re_match check_time_pattern time_string \<noteq> None)"

subsection \<open>Times of day and \<^verbatim>\<open>datetime.strptime(s, "%H:%M").time()\<close>\<close>

record pytime =
  hour :: nat
  minute :: nat
  second :: nat
  microsecond :: nat

text \<open>
  \<^verbatim>\<open>_strptime\<close> compiles the format \<^verbatim>\<open>%H:%M\<close> to the regular expression
  \<^verbatim>\<open>(?P<H>2[0-3]|[0-1]\d|\d):(?P<M>[0-5]\d|\d)\<close>, matches it at the start of the text,
  raises \<^verbatim>\<open>ValueError\<close> when there is no match or when the match leaves text unread,
  and converts the two groups with \<^verbatim>\<open>int\<close>.
\<close>

definition strptime_regex :: regex where
  "strptime_regex =
     Seq (Grp ''H'' (Alt (Seq (Lit CHR ''2'') (Cls [(CHR ''0'', CHR ''3'')]))
                    (Alt (Seq (Cls [(CHR ''0'', CHR ''1'')]) digit) digit)))
      (Seq (Lit CHR '':'')
           (Grp ''M'' (Alt (Seq (Cls [(CHR ''0'', CHR ''5'')]) digit) digit)))"

definition py_int :: "string \<Rightarrow> nat" where
  "py_int ds = foldl (\<lambda>n c. 10 * n + (of_char c - 48)) 0 ds"

definition strptime_HM :: "string \<Rightarrow> py_error + pytime" where
  "strptime_HM data_string =
     (case re_match strptime_regex data_string of
        None \<Rightarrow> Inl ValueError
      | Some (j, r, g) \<Rightarrow>
          if length data_string \<noteq> j then Inl ValueError
          else (case (map_of g ''H'', map_of g ''M'') of
                  (Some hs, Some ms) \<Rightarrow>
                    Inr \<lparr>hour = py_int hs, minute = py_int ms, second = 0, microsecond = 0\<rparr>
                | _ \<Rightarrow> Inl ValueError))"


subsection \<open>Dates, naive datetimes and the host clock\<close>

text \<open>
  A date is a day number (days since 1970-01-01); a naive \<^verbatim>\<open>datetime\<close> is a date with a
  time of day. The dates come from the host clock, which is nowhere near the ends of Python's
  date range (years 1 and 9999), so that range is not modelled.
\<close>

type_synonym pydate = int

definition datetime_combine :: "pydate \<Rightarrow> pytime \<Rightarrow> pydate \<times> pytime" where
  "datetime_combine d t = (d, t)"

text \<open>\<^verbatim>\<open>dt - timedelta(hours=k)\<close>: the minutes borrow from the date, the time wraps.\<close>

definition sub_hours :: "pydate \<times> pytime \<Rightarrow> int \<Rightarrow> pydate \<times> pytime" where
  "sub_hours dt k =
     (let mins = int (hour (snd dt)) * 60 + int (minute (snd dt)) - 60 * k
      in (fst dt + mins div 1440,
          (snd dt)\<lparr>hour := nat (mins div 60 mod 24), minute := nat (mins mod 60)\<rparr>))"

text \<open>
  Python orders naive times as the tuples (hour, minute, second, microsecond).
  \<open>time_ge a b\<close> is \<^verbatim>\<open>a >= b\<close>.
\<close>

definition time_ge :: "pytime \<Rightarrow> pytime \<Rightarrow> bool" where
  "time_ge a b =
     (hour b < hour a \<or> hour b = hour a \<and>
       (minute b < minute a \<or> minute b = minute a \<and>
         (second b < second a \<or> second b = second a \<and> microsecond b \<le> microsecond a)))"

text \<open>
  One reading of the host clock: the UTC date and time of day, and the offset in minutes of
  the host's local zone from UTC. \<^verbatim>\<open>datetime.today()\<close> is the naive local datetime,
  \<^verbatim>\<open>datetime.utcnow()\<close> the naive UTC datetime.
\<close>

record clock =
  utc_date :: pydate
  utc_time :: pytime
  utcoffset :: int

definition today_date :: "clock \<Rightarrow> pydate" where
  "today_date c =
     utc_date c + (int (hour (utc_time c)) * 60 + int (minute (utc_time c)) + utcoffset c) div 1440"

definition utcnow_time :: "clock \<Rightarrow> pytime" where
  "utcnow_time c = utc_time c"

section \<open>The configuration and its store\<close>

record config =
  channel_id :: int
  schedule :: string

text \<open>
  Modelled from the spec: the class \<^verbatim>\<open>TriviaDB\<close> of \<^verbatim>\<open>database/trivia.py\<close> is not
  among the sources. The spec's Config Store "persists two fields, channel_id and schedule,
  supports insert (once), read, update", and holds at most one row. The store is the row it
  holds: \<open>insert\<close> writes the row when there is none, \<open>update\<close> overwrites both fields of
  the row there is, \<open>get_config\<close> reads it.
\<close>

definition TriviaDB_insert :: "config option \<Rightarrow> int \<Rightarrow> string \<Rightarrow> config option" where
  "TriviaDB_insert row c s =
     (case row of None \<Rightarrow> Some \<lparr>channel_id = c, schedule = s\<rparr> | Some r \<Rightarrow> Some r)"

definition TriviaDB_update :: "config option \<Rightarrow> int \<Rightarrow> string \<Rightarrow> config option" where
  "TriviaDB_update row c s =
     (case row of None \<Rightarrow> None | Some r \<Rightarrow> Some \<lparr>channel_id = c, schedule = s\<rparr>)"

definition TriviaDB_get_config :: "config option \<Rightarrow> config option" where
  "TriviaDB_get_config row = row"

section \<open>The cog\<close>

text \<open>
  The fields of \<^verbatim>\<open>Trivia\<close> set in \<^verbatim>\<open>__init__\<close>; \<open>db\<close> is the row behind the handle
  \<^verbatim>\<open>self.db\<close>, \<open>config\<close> the copy of it the cog keeps in \<^verbatim>\<open>self.config\<close>.
\<close>

record cog =
  sent_today :: bool
  sent_date :: "pydate option"
  config :: "config option"
  db :: "config option"

definition cog_load :: "config option \<Rightarrow> cog" where
  "cog_load row =
     \<lparr>sent_today = False, sent_date = None, config = TriviaDB_get_config row, db = row\<rparr>"

subsection \<open>\<^verbatim>\<open>Trivia._get_schedule\<close>\<close>

definition get_schedule :: "config option \<Rightarrow> pydate \<Rightarrow> py_error + pytime" where
  "get_schedule cfg today =
     (case cfg of
        None \<Rightarrow> Inr \<lparr>hour = 0, minute = 0, second = 0, microsecond = 0\<rparr>
      | Some c \<Rightarrow>
          (case strptime_HM (schedule c) of
             Inl err \<Rightarrow> Inl err
           | Inr schedule_utc_plus_8 \<Rightarrow>
               Inr (snd (sub_hours (datetime_combine today schedule_utc_plus_8) 8))))"


subsection \<open>What a tick meets outside the cog\<close>

text \<open>
  The decoded body of a response, with the two subscriptions the loop applies to it:
  \<^verbatim>\<open>x[0]\<close> and \<^verbatim>\<open>x["fact"]\<close>. An object is its members in the order of the document; a
  repeated key keeps its last value.
\<close>

datatype json =
    JNull | JBool bool | JNum int | JStr string
  | JArr "json list" | JObj "(string \<times> json) list"

fun py_index0 :: "json \<Rightarrow> py_error + json" where
  "py_index0 (JArr []) = Inl IndexError"
| "py_index0 (JArr (x # xs)) = Inr x"
| "py_index0 (JStr []) = Inl IndexError"
| "py_index0 (JStr (c # cs)) = Inr (JStr [c])"
| "py_index0 (JObj kvs) = Inl KeyError"
| "py_index0 _ = Inl TypeError"

fun py_getitem :: "json \<Rightarrow> string \<Rightarrow> py_error + json" where
  "py_getitem (JObj kvs) k =
     (case map_of (rev kvs) k of None \<Rightarrow> Inl KeyError | Some v \<Rightarrow> Inr v)"
| "py_getitem _ k = Inl TypeError"

text \<open>\<^verbatim>\<open>str(n)\<close> for an integer, used by the f-string of the error message.\<close>

definition digit_chr :: "nat \<Rightarrow> char" where
  "digit_chr n = char_of (48 + n)"

fun str_nat :: "nat \<Rightarrow> string" where
  "str_nat n = (if n < 10 then [digit_chr n] else str_nat (n div 10) @ [digit_chr (n mod 10)])"

declare str_nat.simps [simp del]

definition py_str :: "int \<Rightarrow> string" where
  "py_str i = (if i < 0 then CHR ''-'' # str_nat (nat (- i)) else str_nat (nat i))"

record response =
  status_code :: int
  body :: "py_error + json"

text \<open>A text channel is known by its \<^verbatim>\<open>id\<close>.\<close>

datatype channel = TextChannel int

fun id_of :: "channel \<Rightarrow> int" where
  "id_of (TextChannel n) = n"

datatype colour = Blurple

text \<open>
  The embed keeps the value given as its description; for a JSON string that is the text
  itself.
\<close>

record embed =
  title :: string
  description :: json
  color :: colour
  image_url :: string

datatype message = Content string | EmbedMsg embed

text \<open>What a tick does to the outside: the request it issues, the messages it delivers.\<close>

datatype event = HttpGet string | Sent channel message

text \<open>
  The surroundings of one tick: the clock reading, \<^verbatim>\<open>bot.get_channel\<close>, the outcome of
  \<^verbatim>\<open>requests.get\<close> (an exception of the transport, or a response), and the exception
  \<^verbatim>\<open>channel.send\<close> raises, if it does. The loop reads the clock when it starts and once
  more when it records the send; a tick is taken at one instant here, as under the simulated
  clock of the specification's properties, so every reading of a tick is \<open>now\<close>.
\<close>

record tick_env =
  now :: clock
  get_channel :: "int \<Rightarrow> channel option"
  http_response :: "py_error + response"
  send_error :: "py_error option"

text \<open>
  \<^verbatim>\<open>await trivia_channel.send(...)\<close>: on \<^verbatim>\<open>None\<close> the attribute lookup raises
  \<^verbatim>\<open>AttributeError\<close>.
\<close>

definition channel_send :: "tick_env \<Rightarrow> channel option \<Rightarrow> message \<Rightarrow> py_error + event" where
  "channel_send e trivia_channel msg =
     (case trivia_channel of
        None \<Rightarrow> Inl AttributeError
      | Some ch \<Rightarrow> (case send_error e of Some err \<Rightarrow> Inl err | None \<Rightarrow> Inr (Sent ch msg)))"

definition facts_url :: string where
  "facts_url = ''https://api.api-ninjas.com/v1/facts''"

definition trivia_embed :: "json \<Rightarrow> embed" where
  "trivia_embed the_fact =
     \<lparr>title = ''Prof. Progphil Trivia of the Day'', description = the_fact, color = Blurple,
      image_url = ''https://cdn.discordapp.com/attachments/972510204505763951/1076388478088122368/image-12.png''\<rparr>"

definition fetch_error_text :: "int \<Rightarrow> string" where
  "fetch_error_text code = ''An error occurred while fetching trivia. Error code: '' @ py_str code"

subsection \<open>\<^verbatim>\<open>Trivia.trivia_loop\<close>\<close>

text \<open>
  A tick returns the cog as it leaves it, the events in order, and the exception that left
  the coroutine, if one did. \<open>send_sequence\<close> is the second half of the loop body, from the
  channel lookup to the end; \<open>day_reset\<close> is its second statement, the comparison of
  \<^verbatim>\<open>datetime.today().date()\<close> with \<^verbatim>\<open>self.sent_date\<close>.
\<close>

definition send_sequence :: "tick_env \<Rightarrow> config \<Rightarrow> cog \<Rightarrow> cog \<times> event list \<times> py_error option" where
  "send_sequence e cfg st =
     (let trivia_channel = get_channel e (channel_id cfg) in
      case http_response e of
        Inl err \<Rightarrow> (st, [HttpGet facts_url], Some err)
      | Inr response \<Rightarrow>
          if status_code response \<noteq> 200 then
            (case channel_send e trivia_channel (Content (fetch_error_text (status_code response))) of
               Inl err \<Rightarrow> (st, [HttpGet facts_url], Some err)
             | Inr ev \<Rightarrow> (st, [HttpGet facts_url, ev], None))
          else
            (case body response of
               Inl err \<Rightarrow> (st, [HttpGet facts_url], Some err)
             | Inr response_json \<Rightarrow>
                 (case py_index0 response_json of
                    Inl err \<Rightarrow> (st, [HttpGet facts_url], Some err)
                  | Inr first \<Rightarrow>
                      (case py_getitem first ''fact'' of
                         Inl err \<Rightarrow> (st, [HttpGet facts_url], Some err)
                       | Inr the_fact \<Rightarrow>
                           (case channel_send e trivia_channel (EmbedMsg (trivia_embed the_fact)) of
                              Inl err \<Rightarrow> (st, [HttpGet facts_url], Some err)
                            | Inr ev \<Rightarrow>
                                (st\<lparr>sent_today := True, sent_date := Some (today_date (now e))\<rparr>,
                                 [HttpGet facts_url, ev], None))))))"

definition day_reset :: "pydate \<Rightarrow> cog \<Rightarrow> cog" where
  "day_reset today st = (if Some today \<noteq> sent_date st then st\<lparr>sent_today := False\<rparr> else st)"

definition trivia_loop :: "tick_env \<Rightarrow> cog \<Rightarrow> cog \<times> event list \<times> py_error option" where
  "trivia_loop e st =
     (case config st of
        None \<Rightarrow> (st, [], None)
      | Some cfg \<Rightarrow>
          (let st1 = day_reset (today_date (now e)) st
           in case get_schedule (config st1) (today_date (now e)) of
                Inl err \<Rightarrow> (st1, [], Some err)
              | Inr sched \<Rightarrow>
                  if \<not> time_ge (utcnow_time (now e)) sched then (st1, [], None)
                  else if sent_today st1 then (st1, [], None)
                  else send_sequence e cfg st1))"

text \<open>
  The loop calls the coroutine tick after tick, one call at a time. An exception that
  leaves a tick ends the run with it; the trace holds the events of each tick that ran.
\<close>

fun run_ticks :: "cog \<Rightarrow> tick_env list \<Rightarrow> cog \<times> event list list \<times> py_error option" where
  "run_ticks st [] = (st, [], None)"
| "run_ticks st (e # es) =
     (case trivia_loop e st of
        (st', evs, Some err) \<Rightarrow> (st', [evs], Some err)
      | (st', evs, None) \<Rightarrow>
          (case run_ticks st' es of (st'', tr, r) \<Rightarrow> (st'', evs # tr, r)))"

subsection \<open>The commands\<close>

text \<open>
  \<^verbatim>\<open>_check_time\<close> returns a \<^verbatim>\<open>bool\<close>, and the commands test its result with
  \<^verbatim>\<open>is None\<close>: no \<^verbatim>\<open>bool\<close> is \<^verbatim>\<open>None\<close>.
\<close>

definition bool_is_None :: "bool \<Rightarrow> bool" where
  "bool_is_None b = False"

text \<open>
  A command returns the cog and the text of its ephemeral reply. The staff check of the
  decorator \<^verbatim>\<open>is_staff\<close> is outside the cog; the bodies are those of a permitted call.
\<close>

definition setup_first :: string where
  "setup_first = ''Please setup the trivia first, use /trivia setup.''"

definition correct_time :: string where
  "correct_time = ''Please enter a correct time. 00:00 to 23:59''"

definition schedule_cmd :: "cog \<Rightarrow> string \<Rightarrow> cog \<times> string" where
  "schedule_cmd st sched =
     (case config st of
        None \<Rightarrow> (st, setup_first)
      | Some cfg \<Rightarrow>
          if bool_is_None (check_time sched) then (st, correct_time)
          else
            (let row = TriviaDB_update (db st) (channel_id cfg) sched
             in (st\<lparr>db := row, config := TriviaDB_get_config row\<rparr>,
                 ''Trivia session scheduled at '' @ sched)))"

definition channel_cmd :: "cog \<Rightarrow> channel \<Rightarrow> cog \<times> string" where
  "channel_cmd st ch =
     (case config st of
        None \<Rightarrow> (st, setup_first)
      | Some cfg \<Rightarrow>
          (let row = TriviaDB_update (db st) (id_of ch) (schedule cfg)
           in (st\<lparr>db := row, config := TriviaDB_get_config row\<rparr>, ''Trivia channel set'')))"

definition setup_cmd :: "cog \<Rightarrow> channel \<Rightarrow> string \<Rightarrow> cog \<times> string" where
  "setup_cmd st ch sched =
     (case config st of
        Some cfg \<Rightarrow>
          (st, ''Trivia is already setup, use /trivia channel and /trivia schedule to change the channel and schedule.'')
      | None \<Rightarrow>
          if bool_is_None (check_time sched) then (st, correct_time)
          else
            (let row = TriviaDB_insert (db st) (id_of ch) sched
             in (st\<lparr>db := row, config := TriviaDB_get_config row\<rparr>, ''Trivia setup'')))"


section \<open>Notions of the specification\<close>

text \<open>
  The schedule format of the specification: \<^verbatim>\<open>HH:MM\<close>, two digits each, hours 00 to 23 and
  minutes 00 to 59. \<open>valid_H_MM\<close> also admits an hour written with one digit.
\<close>

definition is_digit :: "char \<Rightarrow> bool" where
  "is_digit c = ((48::nat) \<le> of_char c \<and> (of_char c :: nat) \<le> 57)"

definition digit_val :: "char \<Rightarrow> nat" where
  "digit_val c = of_char c - 48"

fun valid_HHMM :: "string \<Rightarrow> bool" where
  "valid_HHMM [a, b, c, d, e] =
     (is_digit a \<and> is_digit b \<and> c = CHR '':'' \<and> is_digit d \<and> is_digit e \<and>
      10 * digit_val a + digit_val b < 24 \<and> 10 * digit_val d + digit_val e < 60)"
| "valid_HHMM _ = False"

fun valid_H_MM :: "string \<Rightarrow> bool" where
  "valid_H_MM [a, c, d, e] =
     (is_digit a \<and> c = CHR '':'' \<and> is_digit d \<and> is_digit e \<and>
      10 * digit_val d + digit_val e < 60)"
| "valid_H_MM s = valid_HHMM s"

fun hour_of :: "string \<Rightarrow> nat" where
  "hour_of (a # b # s) = 10 * digit_val a + digit_val b"
| "hour_of _ = 0"

fun minute_of :: "string \<Rightarrow> nat" where
  "minute_of (a # b # c # d # e # s) = 10 * digit_val d + digit_val e"
| "minute_of _ = 0"

text \<open>The fire time of a configuration: its schedule normalized (on any date).\<close>

definition fire_time :: "config \<Rightarrow> py_error + pytime" where
  "fire_time cfg = get_schedule (Some cfg) 0"

text \<open>
  The gate decides to fire: the tick passes the three guards of the loop and reaches the
  send sequence.
\<close>

definition gate_fires :: "tick_env \<Rightarrow> cog \<Rightarrow> bool" where
  "gate_fires e st =
     (case config st of
        None \<Rightarrow> False
      | Some cfg \<Rightarrow>
          (case fire_time cfg of
             Inl err \<Rightarrow> False
           | Inr t \<Rightarrow>
               time_ge (utcnow_time (now e)) t \<and>
               \<not> (sent_today st \<and> sent_date st = Some (today_date (now e)))))"

text \<open>
  The Content Fetcher succeeds: status 200 and a body whose first element has a member
  \<^verbatim>\<open>fact\<close>; \<open>fetched_fact\<close> is that member. It fails with a response when the status is
  another one; \<open>failed_status\<close> is that status.
\<close>

definition fetched_fact :: "tick_env \<Rightarrow> json option" where
  "fetched_fact e =
     (case http_response e of
        Inl err \<Rightarrow> None
      | Inr r \<Rightarrow>
          if status_code r \<noteq> 200 then None
          else (case body r of
                  Inl err \<Rightarrow> None
                | Inr js \<Rightarrow>
                    (case py_index0 js of
                       Inl err \<Rightarrow> None
                     | Inr x \<Rightarrow> (case py_getitem x ''fact'' of Inl err \<Rightarrow> None | Inr f \<Rightarrow> Some f))))"

definition failed_status :: "tick_env \<Rightarrow> int option" where
  "failed_status e =
     (case http_response e of
        Inl err \<Rightarrow> None
      | Inr r \<Rightarrow> if status_code r \<noteq> 200 then Some (status_code r) else None)"

text \<open>The Notifier works: the configured channel resolves and the delivery does not raise.\<close>

definition notifier_ok :: "tick_env \<Rightarrow> config \<Rightarrow> channel \<Rightarrow> bool" where
  "notifier_ok e cfg ch = (get_channel e (channel_id cfg) = Some ch \<and> send_error e = None)"

text \<open>A pattern accepts from a state when it has a match from there.\<close>

definition acc :: "regex \<Rightarrow> mstate \<Rightarrow> bool" where
  "acc r st = (re_run r st \<noteq> [])"

text \<open>
  A tick for the scenarios: a host on UTC at the given time of the given day, every channel
  resolving, the delivery working, and the given answer of the fetch.
\<close>

definition at_time :: "nat \<Rightarrow> nat \<Rightarrow> pytime" where
  "at_time h m = \<lparr>hour = h, minute = m, second = 0, microsecond = 0\<rparr>"

definition tick_at :: "pydate \<Rightarrow> nat \<Rightarrow> nat \<Rightarrow> py_error + response \<Rightarrow> tick_env" where
  "tick_at d h m r =
     \<lparr>now = \<lparr>utc_date = d, utc_time = at_time h m, utcoffset = 0\<rparr>,
      get_channel = (\<lambda>n. Some (TextChannel n)), http_response = r, send_error = None\<rparr>"

definition bees :: "py_error + response" where
  "bees = Inr \<lparr>status_code = 200,
               body = Inr (JArr [JObj [(''fact'', JStr ''Bees can fly.'')]])\<rparr>"

definition server_error :: "py_error + response" where
  "server_error = Inr \<lparr>status_code = 500, body = Inl JSONDecodeError\<rparr>"

text \<open>The same tick with the configured channel gone, and on a host whose zone is not UTC.\<close>

definition unresolved :: "tick_env \<Rightarrow> tick_env" where
  "unresolved e = e\<lparr>get_channel := (\<lambda>n. None)\<rparr>"

definition host_offset :: "int \<Rightarrow> tick_env \<Rightarrow> tick_env" where
  "host_offset k e = e\<lparr>now := (now e)\<lparr>utcoffset := k\<rparr>\<rparr>"

definition nine_oclock :: config where
  "nine_oclock = \<lparr>channel_id = 7, schedule = ''09:00''\<rparr>"


section \<open>The validation predicate\<close>

lemma chr_eq_nat: "(c = d) = (of_char c = (of_char d :: nat))"
  by simp

lemma chr_eq_iff:
  "(c = CHR ''2'') = (of_char c = (50::nat))"
  "(c = CHR '':'') = (of_char c = (58::nat))"
  "(c = CHR 0x0A) = (of_char c = (10::nat))"
  by (simp_all add: chr_eq_nat[of c])

lemma acc_Seq: "acc (Seq a b) st = list_ex (acc b) (re_run a st)"
  by (auto simp: acc_def list_ex_iff)

lemma acc_Lit: "acc (Lit c) (i, s, g) = (case s of [] \<Rightarrow> False | x # xs \<Rightarrow> x = c)"
  by (simp add: acc_def split: list.splits)

lemma acc_Cls: "acc (Cls rs) (i, s, g) = (case s of [] \<Rightarrow> False | x # xs \<Rightarrow> in_class rs x)"
  by (simp add: acc_def split: list.splits)

lemma acc_Eol: "acc Eol (i, s, g) = (s = [] \<or> s = [CHR 0x0A])"
  by (simp add: acc_def)

lemma concat_map_if: "concat (map f (if P then [x] else [])) = (if P then f x else [])"
  by simp

lemma list_ex_if: "list_ex P (if c then xs else []) = (c \<and> list_ex P xs)"
  by simp

lemma check_time_acc: "check_time s = acc check_time_pattern (0, s, [])"
  by (simp add: check_time_def re_match_def acc_def split: list.splits)

lemmas ct_defs =
  check_time_acc check_time_pattern_def digit_def concat_map_if list_ex_if
  acc_Seq acc_Lit acc_Cls acc_Eol

lemmas digit_defs = in_class_def is_digit_def digit_val_def chr_eq_iff

lemma check_time_short:
  "check_time [] = False" "check_time [a] = False"
  "check_time [a, b] = False" "check_time [a, b, c] = False"
  by (simp_all add: ct_defs split del: if_split)

lemma check_time_4: "check_time [a, c, d, e] = valid_H_MM [a, c, d, e]"
  apply (simp add: ct_defs split del: if_split)
  apply (auto simp: digit_defs)
  done

lemma check_time_5:
  "CHR 0x0A \<noteq> e \<Longrightarrow> check_time [a, b, c, d, e] = valid_H_MM [a, b, c, d, e]"
  apply (simp add: ct_defs split del: if_split)
  apply (auto simp: digit_defs)
  done

lemma check_time_long: "CHR 0x0A \<noteq> f \<Longrightarrow> check_time (a # b # c # d # e # f # r) = False"
  by (simp add: ct_defs split del: if_split)

text \<open>The line feed: \<^verbatim>\<open>$\<close> lets a valid time pass with one line feed after it.\<close>

lemma check_time_trailing_newline: "check_time (''12:00'' @ [CHR 0x0A])"
  by (simp add: ct_defs in_class_def split del: if_split)

text \<open>
  C7, as the code has it. For every string without a line feed, \<^verbatim>\<open>_check_time\<close> is true
  exactly when the string is an hour from 0 to 23 written with one or two digits, a colon,
  and a minute from 00 to 59 written with two digits.
\<close>

theorem check_time_accepts_H_MM:
  assumes "CHR 0x0A \<notin> set s"
  shows "check_time s = valid_H_MM s"
  using assms
  apply (cases s rule: valid_H_MM.cases; simp add: check_time_short check_time_4)
  subgoal for a b c d e r
    by (cases r) (simp_all add: check_time_5 check_time_long)
  done

theorem check_time_accepts_H_MM_witness:
  "CHR 0x0A \<notin> set ''16:23'' \<and> check_time ''16:23'' \<and> valid_H_MM ''16:23'' \<and>
   CHR 0x0A \<notin> set ''24:00'' \<and> \<not> check_time ''24:00'' \<and> \<not> valid_H_MM ''24:00''"
  using check_time_accepts_H_MM [of "''16:23''"] check_time_accepts_H_MM [of "''24:00''"]
  by (simp add: is_digit_def digit_val_def)

text \<open>
  C7 as stated fails: \<^verbatim>\<open>_check_time\<close> accepts \<^verbatim>\<open>9:05\<close>, whose hour has one digit
  (the docstring gives \<^verbatim>\<open>1:24\<close> as an example of a valid time).
\<close>

theorem check_time_one_digit_hour:
  "check_time ''9:05'' \<and> \<not> valid_HHMM ''9:05''"
  by (simp add: check_time_4 is_digit_def digit_val_def)

section \<open>The schedule normalizer\<close>

lemma strptime_valid:
  assumes "valid_HHMM [a, b, c, d, e]"
  shows "strptime_HM [a, b, c, d, e] =
     Inr \<lparr>hour = 10 * digit_val a + digit_val b, minute = 10 * digit_val d + digit_val e,
          second = 0, microsecond = 0\<rparr>"
proof -
  from assms have c: "c = CHR '':''"
    and d: "in_class [(CHR ''0'', CHR ''5'')] d" and e: "in_class [(CHR ''0'', CHR ''9'')] e"
    and b: "in_class [(CHR ''0'', CHR ''9'')] b" and bc: "b \<noteq> CHR '':''"
    and a: "a = CHR ''2'' \<and> in_class [(CHR ''0'', CHR ''3'')] b \<or>
            a \<noteq> CHR ''2'' \<and> in_class [(CHR ''0'', CHR ''1'')] a"
    by (auto simp: digit_defs)
  from a show ?thesis
  proof
    assume "a = CHR ''2'' \<and> in_class [(CHR ''0'', CHR ''3'')] b"
    then show ?thesis using b c d e
      by (simp add: strptime_HM_def re_match_def strptime_regex_def digit_def py_int_def digit_val_def)
  next
    assume "a \<noteq> CHR ''2'' \<and> in_class [(CHR ''0'', CHR ''1'')] a"
    then show ?thesis using b c d e
      by (simp add: strptime_HM_def re_match_def strptime_regex_def digit_def py_int_def digit_val_def)
  qed
qed

lemma strptime_HHMM:
  assumes "valid_HHMM s"
  shows "strptime_HM s = Inr \<lparr>hour = hour_of s, minute = minute_of s, second = 0, microsecond = 0\<rparr>"
  using assms by (cases s rule: valid_HHMM.cases) (simp_all add: strptime_valid del: valid_HHMM.simps(1))

lemma valid_HHMM_bounds: "valid_HHMM s \<Longrightarrow> hour_of s < 24 \<and> minute_of s < 60"
  by (cases s rule: valid_HHMM.cases) simp_all

lemma divmod_60:
  fixes k m :: int
  assumes "0 \<le> m" "m < 60"
  shows "(k * 60 + m) div 60 = k" "(k * 60 + m) mod 60 = m"
  using assms by simp_all

lemma sub_hours_time:
  assumes "minute t < 60"
  shows "snd (sub_hours (datetime_combine d t) 8) =
         t\<lparr>hour := nat ((int (hour t) - 8) mod 24), minute := minute t\<rparr>"
proof -
  let ?mins = "int (hour t) * 60 + int (minute t) - 60 * 8"
  have e: "?mins = (int (hour t) - 8) * 60 + int (minute t)"
    by (simp add: algebra_simps)
  have m: "?mins mod 60 = int (minute t)"
    unfolding e using assms by (intro divmod_60) simp_all
  have h: "?mins div 60 = int (hour t) - 8"
    unfolding e using assms by (intro divmod_60) simp_all
  show ?thesis
    unfolding sub_hours_def datetime_combine_def Let_def snd_conv m h by simp
qed

lemma get_schedule_date: "get_schedule cfg d = get_schedule cfg d'"
  by (simp add: get_schedule_def sub_hours_def datetime_combine_def Let_def split: option.splits sum.splits)

lemma get_schedule_HHMM:
  assumes "valid_HHMM (schedule cfg)"
  shows "get_schedule (Some cfg) today =
     Inr \<lparr>hour = nat ((int (hour_of (schedule cfg)) - 8) mod 24), minute = minute_of (schedule cfg),
          second = 0, microsecond = 0\<rparr>"
  using valid_HHMM_bounds[OF assms]
  by (simp add: get_schedule_def strptime_HHMM[OF assms] sub_hours_time)

text \<open>
  C5. For every valid \<^verbatim>\<open>HH:MM\<close> schedule with hour \<open>h\<close> and minute \<open>m\<close>, on every
  date, \<^verbatim>\<open>_get_schedule\<close> returns the time of day with hour \<open>(h - 8) mod 24\<close> and minute
  \<open>m\<close>, and that hour is below 24.
\<close>

theorem get_schedule_normalizes:
  "valid_HHMM (schedule cfg) \<Longrightarrow>
   get_schedule (Some cfg) today =
     Inr \<lparr>hour = nat ((int (hour_of (schedule cfg)) - 8) mod 24),
          minute = minute_of (schedule cfg), second = 0, microsecond = 0\<rparr> \<and>
   nat ((int (hour_of (schedule cfg)) - 8) mod 24) < 24 \<and> minute_of (schedule cfg) < 60"
  using valid_HHMM_bounds [of "schedule cfg"] by (simp add: get_schedule_HHMM)

theorem get_schedule_normalizes_witness:
  "valid_HHMM (schedule nine_oclock) \<and>
   get_schedule (Some nine_oclock) 19000 = Inr (at_time 1 0) \<and>
   valid_HHMM ''03:30'' \<and>
   get_schedule (Some \<lparr>channel_id = 7, schedule = ''03:30''\<rparr>) 19000 = Inr (at_time 19 30)"
  using get_schedule_normalizes [of nine_oclock 19000]
    get_schedule_normalizes [of "\<lparr>channel_id = 7, schedule = ''03:30''\<rparr>" 19000]
  by (simp add: nine_oclock_def at_time_def is_digit_def digit_val_def)

text \<open>
  C10. For every valid \<^verbatim>\<open>HH:MM\<close> schedule, \<^verbatim>\<open>_get_schedule\<close> returns a time of day,
  and the same one on any two dates and for any channel: it depends on the schedule string
  alone.
\<close>

theorem get_schedule_ignores_date:
  "valid_HHMM s \<Longrightarrow>
   (\<exists>t. get_schedule (Some \<lparr>channel_id = c, schedule = s\<rparr>) d = Inr t \<and>
        get_schedule (Some \<lparr>channel_id = c', schedule = s\<rparr>) d' = Inr t)"
  by (simp add: get_schedule_HHMM)

theorem get_schedule_ignores_date_witness:
  "valid_HHMM ''09:00'' \<and>
   (\<exists>t. get_schedule (Some \<lparr>channel_id = 1, schedule = ''09:00''\<rparr>) 0 = Inr t \<and>
        get_schedule (Some \<lparr>channel_id = 2, schedule = ''09:00''\<rparr>) 19000 = Inr t)"
  using get_schedule_ignores_date [of "''09:00''" 1 0 2 19000]
  by (simp add: is_digit_def digit_val_def)

section \<open>One tick of the loop\<close>

lemma fire_time_get_schedule: "get_schedule (Some cfg) d = fire_time cfg"
  unfolding fire_time_def by (rule get_schedule_date)

lemma day_reset_simps:
  "config (day_reset d st) = config st"
  "db (day_reset d st) = db st"
  "sent_date (day_reset d st) = sent_date st"
  "sent_today (day_reset d st) = (sent_today st \<and> sent_date st = Some d)"
  by (auto simp: day_reset_def)

lemma tick_no_config: "config st = None \<Longrightarrow> trivia_loop e st = (st, [], None)"
  by (simp add: trivia_loop_def)

lemma tick_bad_schedule:
  "config st = Some cfg \<Longrightarrow> fire_time cfg = Inl err \<Longrightarrow>
   trivia_loop e st = (day_reset (today_date (now e)) st, [], Some err)"
  by (simp add: trivia_loop_def Let_def day_reset_simps fire_time_get_schedule)

lemma tick_quiet:
  "config st = Some cfg \<Longrightarrow> fire_time cfg = Inr t \<Longrightarrow> \<not> gate_fires e st \<Longrightarrow>
   trivia_loop e st = (day_reset (today_date (now e)) st, [], None)"
  by (auto simp: trivia_loop_def Let_def day_reset_simps fire_time_get_schedule gate_fires_def)

lemma tick_fires:
  "config st = Some cfg \<Longrightarrow> gate_fires e st \<Longrightarrow>
   trivia_loop e st = send_sequence e cfg (day_reset (today_date (now e)) st)"
  by (auto simp: trivia_loop_def Let_def day_reset_simps fire_time_get_schedule gate_fires_def
      split: sum.splits)

lemma seq_success:
  "fetched_fact e = Some f \<Longrightarrow> notifier_ok e cfg ch \<Longrightarrow>
   send_sequence e cfg st =
     (st\<lparr>sent_today := True, sent_date := Some (today_date (now e))\<rparr>,
      [HttpGet facts_url, Sent ch (EmbedMsg (trivia_embed f))], None)"
  by (auto simp: send_sequence_def fetched_fact_def notifier_ok_def channel_send_def Let_def
      split: sum.splits if_splits)

lemma seq_failure:
  "failed_status e = Some k \<Longrightarrow> notifier_ok e cfg ch \<Longrightarrow>
   send_sequence e cfg st =
     (st, [HttpGet facts_url, Sent ch (Content (fetch_error_text k))], None)"
  by (auto simp: send_sequence_def failed_status_def notifier_ok_def channel_send_def Let_def
      split: sum.splits if_splits)

lemma seq_requests: "HttpGet facts_url \<in> set (fst (snd (send_sequence e cfg st)))"
  by (simp add: send_sequence_def channel_send_def Let_def split: sum.splits option.splits)

lemma seq_state:
  "fst (send_sequence e cfg st) = st \<or>
   (\<exists>ch f. send_sequence e cfg st =
      (st\<lparr>sent_today := True, sent_date := Some (today_date (now e))\<rparr>,
       [HttpGet facts_url, Sent ch (EmbedMsg (trivia_embed f))], None))"
  by (auto simp: send_sequence_def channel_send_def Let_def split: sum.splits option.splits)

lemma seq_no_channel:
  "get_channel e (channel_id cfg) = None \<Longrightarrow> failed_status e = Some k \<or> fetched_fact e = Some f \<Longrightarrow>
   send_sequence e cfg st = (st, [HttpGet facts_url], Some AttributeError)"
  by (auto simp: send_sequence_def failed_status_def fetched_fact_def channel_send_def Let_def
      split: sum.splits if_splits)

lemma seq_send_error:
  "get_channel e (channel_id cfg) = Some ch \<Longrightarrow> send_error e = Some err \<Longrightarrow>
   failed_status e = Some k \<or> fetched_fact e = Some f \<Longrightarrow>
   send_sequence e cfg st = (st, [HttpGet facts_url], Some err)"
  by (auto simp: send_sequence_def failed_status_def fetched_fact_def channel_send_def Let_def
      split: sum.splits if_splits)

lemma seq_transport:
  "http_response e = Inl err \<Longrightarrow>
   send_sequence e cfg st = (st, [HttpGet facts_url], Some err)"
  by (simp add: send_sequence_def Let_def)


section \<open>Runs of ticks\<close>

lemma run_append:
  "run_ticks st xs = (st', tr, None) \<Longrightarrow> run_ticks st' ys = (st'', tr', r) \<Longrightarrow>
   run_ticks st (xs @ ys) = (st'', tr @ tr', r)"
proof (induction xs arbitrary: st tr)
  case Nil
  then show ?case by simp
next
  case (Cons x xs)
  obtain s1 ev r1 where t: "trivia_loop x st = (s1, ev, r1)"
    by (cases "trivia_loop x st") auto
  show ?case
  proof (cases r1)
    case (Some err)
    with Cons.prems t show ?thesis by simp
  next
    case None
    obtain s2 tr2 r2 where u: "run_ticks s1 xs = (s2, tr2, r2)"
      by (cases "run_ticks s1 xs") auto
    from Cons.prems(1) t None u have "r2 = None" "s2 = st'" "tr = ev # tr2" by auto
    with Cons.IH [of s1 tr2] u Cons.prems(2) have "run_ticks s1 (xs @ ys) = (st'', tr2 @ tr', r)"
      by simp
    with t None \<open>tr = ev # tr2\<close> show ?thesis by simp
  qed
qed

lemma not_sent_reset: "\<not> sent_today st \<Longrightarrow> day_reset d st = st"
  by (simp add: day_reset_def)

lemma run_early:
  "config st = Some cfg \<Longrightarrow> fire_time cfg = Inr t \<Longrightarrow>
   list_all (\<lambda>e. \<not> time_ge (utcnow_time (now e)) t) es \<Longrightarrow>
   run_ticks st es = (fold (\<lambda>e. day_reset (today_date (now e))) es st, map (\<lambda>e. []) es, None)"
proof (induction es arbitrary: st)
  case Nil
  then show ?case by simp
next
  case (Cons e es)
  have "\<not> gate_fires e st" using Cons.prems by (simp add: gate_fires_def)
  then have "trivia_loop e st = (day_reset (today_date (now e)) st, [], None)"
    using Cons.prems by (simp add: tick_quiet)
  moreover have "run_ticks (day_reset (today_date (now e)) st) es =
      (fold (\<lambda>e. day_reset (today_date (now e))) es (day_reset (today_date (now e)) st),
       map (\<lambda>e. []) es, None)"
    using Cons.prems by (intro Cons.IH) (simp_all add: day_reset_simps)
  ultimately show ?case by simp
qed


lemma fold_reset_simps:
  "config (fold (\<lambda>e. day_reset (today_date (now e))) es st) = config st"
  "sent_date (fold (\<lambda>e. day_reset (today_date (now e))) es st) = sent_date st"
  "db (fold (\<lambda>e. day_reset (today_date (now e))) es st) = db st"
  "sent_today (fold (\<lambda>e. day_reset (today_date (now e))) es st) =
     (sent_today st \<and> list_all (\<lambda>e. sent_date st = Some (today_date (now e))) es)"
  by (induction es arbitrary: st) (auto simp: day_reset_simps)

lemma fold_reset_unsent:
  "\<not> sent_today st \<Longrightarrow> fold (\<lambda>e. day_reset (today_date (now e))) es st = st"
  by (induction es arbitrary: st) (simp_all add: not_sent_reset)

lemma run_failures:
  "config st = Some cfg \<Longrightarrow> fire_time cfg = Inr t \<Longrightarrow> \<not> sent_today st \<Longrightarrow>
   list_all (\<lambda>e. time_ge (utcnow_time (now e)) t \<and> notifier_ok e cfg ch) es \<Longrightarrow>
   map failed_status es = map Some ks \<Longrightarrow>
   run_ticks st es =
     (st, map (\<lambda>k. [HttpGet facts_url, Sent ch (Content (fetch_error_text k))]) ks, None)"
proof (induction es arbitrary: ks)
  case Nil
  then show ?case by simp
next
  case (Cons e es)
  from Cons.prems(5) obtain k ks' where ks: "ks = k # ks'" "failed_status e = Some k"
    "map failed_status es = map Some ks'" by (cases ks) auto
  have "gate_fires e st" using Cons.prems by (simp add: gate_fires_def)
  then have "trivia_loop e st = send_sequence e cfg st"
    using Cons.prems by (simp add: tick_fires not_sent_reset)
  then have "trivia_loop e st = (st, [HttpGet facts_url, Sent ch (Content (fetch_error_text k))], None)"
    using Cons.prems ks by (simp add: seq_failure)
  moreover have "run_ticks st es =
     (st, map (\<lambda>k. [HttpGet facts_url, Sent ch (Content (fetch_error_text k))]) ks', None)"
    using Cons.prems ks by (intro Cons.IH) simp_all
  ultimately show ?case using ks by simp
qed


lemma tick_state:
  assumes "config st = Some cfg"
  shows "fst (trivia_loop e st) = day_reset (today_date (now e)) st \<or>
    \<not> sent_today (day_reset (today_date (now e)) st) \<and>
    (\<exists>ch f. trivia_loop e st =
       (st\<lparr>sent_today := True, sent_date := Some (today_date (now e))\<rparr>,
        [HttpGet facts_url, Sent ch (EmbedMsg (trivia_embed f))], None))"
proof (cases "fire_time cfg")
  case (Inl err)
  then show ?thesis using assms by (simp add: tick_bad_schedule)
next
  case (Inr t)
  show ?thesis
  proof (cases "gate_fires e st")
    case False
    then show ?thesis using assms Inr by (simp add: tick_quiet)
  next
    case True
    then have u: "\<not> sent_today (day_reset (today_date (now e)) st)"
      using assms Inr by (simp add: gate_fires_def day_reset_simps)
    have "(day_reset (today_date (now e)) st)\<lparr>sent_today := True, sent_date := Some (today_date (now e))\<rparr>
        = st\<lparr>sent_today := True, sent_date := Some (today_date (now e))\<rparr>"
      by (simp add: day_reset_def)
    with seq_state [of e cfg "day_reset (today_date (now e)) st"] u True assms
    show ?thesis by (auto simp: tick_fires)
  qed
qed

lemma reset_unsent: "\<not> (sent_today st \<and> sent_date st = Some d) \<Longrightarrow> day_reset d st = st\<lparr>sent_today := False\<rparr>"
  by (auto simp: day_reset_def intro: cog.equality)

lemma tick_keeps_config:
  "config (fst (trivia_loop e st)) = config st \<and> db (fst (trivia_loop e st)) = db st"
proof (cases "config st")
  case None
  then show ?thesis by (simp add: tick_no_config)
next
  case (Some cfg)
  from tick_state [OF Some, of e] show ?thesis
    by (auto simp: day_reset_simps)
qed

lemma run_then_fire:
  assumes "config st = Some cfg" and "fire_time cfg = Inr t"
    and "\<not> (sent_today st \<and> sent_date st = Some (today_date (now e1)))"
    and "list_all (\<lambda>e. \<not> time_ge (utcnow_time (now e)) t) before"
    and "time_ge (utcnow_time (now e1)) t"
  shows "\<exists>st' evs r. run_ticks st (before @ [e1]) = (st', map (\<lambda>e. []) before @ [evs], r) \<and>
           HttpGet facts_url \<in> set evs"
proof -
  let ?m = "fold (\<lambda>e. day_reset (today_date (now e))) before st"
  have 1: "run_ticks st before = (?m, map (\<lambda>e. []) before, None)"
    using assms by (intro run_early [where cfg = cfg and t = t]) simp_all
  have "gate_fires e1 ?m"
    using assms by (auto simp: gate_fires_def fold_reset_simps)
  then have f: "trivia_loop e1 ?m = send_sequence e1 cfg (day_reset (today_date (now e1)) ?m)"
    using assms by (simp add: tick_fires fold_reset_simps)
  obtain s2 evs r where q: "trivia_loop e1 ?m = (s2, evs, r)"
    by (cases "trivia_loop e1 ?m") auto
  then have "fst (snd (send_sequence e1 cfg (day_reset (today_date (now e1)) ?m))) = evs"
    using f by simp
  with seq_requests [of e1 cfg "day_reset (today_date (now e1)) ?m"]
  have g: "HttpGet facts_url \<in> set evs" by simp
  from q have 2: "run_ticks ?m [e1] = (s2, [evs], r)"
    by (cases r) simp_all
  from run_append [OF 1 2] g show ?thesis by blast
qed

section \<open>The scenario of the specification\<close>

lemma fire_time_nine: "fire_time nine_oclock = Inr (at_time 1 0)"
  unfolding fire_time_def
  by (subst get_schedule_HHMM) (simp_all add: nine_oclock_def at_time_def is_digit_def digit_val_def)

lemma fetched_bees: "fetched_fact (tick_at d h m bees) = Some (JStr ''Bees can fly.'')"
  by (simp add: fetched_fact_def tick_at_def bees_def)

lemma nine_simps: "channel_id nine_oclock = 7" "schedule nine_oclock = ''09:00''"
  by (simp_all add: nine_oclock_def)

lemmas scenario_defs =
  tick_at_def unresolved_def host_offset_def cog_load_def TriviaDB_get_config_def
  today_date_def utcnow_time_def time_ge_def at_time_def gate_fires_def notifier_ok_def
  fire_time_nine nine_simps bees_def server_error_def fetched_fact_def failed_status_def

lemmas tick_eval =
  trivia_loop_def send_sequence_def channel_send_def day_reset_def Let_def
  fire_time_get_schedule

lemma py_str_500: "py_str 500 = ''500''"
  by code_simp

section \<open>The gate\<close>

text \<open>
  C6. From a cog with no send on record for the day, the ticks before the fire time do
  nothing, and the first tick whose UTC time of day is at or after the fire time issues the
  request of the send sequence. With the schedule \<^verbatim>\<open>09:00\<close> the fire time is 01:00; the
  tick at 00:59 does nothing; the tick at 01:00 fetches, and with the body
  \<^verbatim>\<open>[{"fact": "Bees can fly."}]\<close> delivers an embed whose description is that text and
  records the send.
\<close>

theorem fires_at_first_due_tick:
  "(config st = Some cfg \<and> fire_time cfg = Inr t \<and>
    \<not> (sent_today st \<and> sent_date st = Some (today_date (now e1))) \<and>
    list_all (\<lambda>e. \<not> time_ge (utcnow_time (now e)) t) before \<and>
    time_ge (utcnow_time (now e1)) t \<longrightarrow>
      (\<exists>st' evs r. run_ticks st (before @ [e1]) = (st', map (\<lambda>e. []) before @ [evs], r) \<and>
         HttpGet facts_url \<in> set evs)) \<and>
   fire_time nine_oclock = Inr (at_time 1 0) \<and>
   trivia_loop (tick_at d 0 59 bees) (cog_load (Some nine_oclock)) =
     (cog_load (Some nine_oclock), [], None) \<and>
   trivia_loop (tick_at d 1 0 bees) (cog_load (Some nine_oclock)) =
     ((cog_load (Some nine_oclock))\<lparr>sent_today := True, sent_date := Some d\<rparr>,
      [HttpGet facts_url, Sent (TextChannel 7) (EmbedMsg (trivia_embed (JStr ''Bees can fly.'')))],
      None) \<and>
   description (trivia_embed (JStr ''Bees can fly.'')) = JStr ''Bees can fly.''"
proof -
  have 1: "trivia_loop (tick_at d 0 59 bees) (cog_load (Some nine_oclock)) =
     (cog_load (Some nine_oclock), [], None)"
    by (simp add: tick_eval scenario_defs)
  have 2: "trivia_loop (tick_at d 1 0 bees) (cog_load (Some nine_oclock)) =
     ((cog_load (Some nine_oclock))\<lparr>sent_today := True, sent_date := Some d\<rparr>,
      [HttpGet facts_url, Sent (TextChannel 7) (EmbedMsg (trivia_embed (JStr ''Bees can fly.'')))],
      None)"
    by (simp add: tick_eval scenario_defs)
  have 3: "description (trivia_embed (JStr ''Bees can fly.'')) = JStr ''Bees can fly.''"
    by (simp add: trivia_embed_def)
  show ?thesis
    using run_then_fire [of st cfg t e1 before] 1 2 3 fire_time_nine by blast
qed

theorem fires_at_first_due_tick_witness:
  "\<exists>st' evs r.
     run_ticks (cog_load (Some nine_oclock))
       ([tick_at 19000 0 58 bees, tick_at 19000 0 59 bees] @ [tick_at 19000 1 0 bees]) =
       (st', map (\<lambda>e. []) [tick_at 19000 0 58 bees, tick_at 19000 0 59 bees] @ [evs], r) \<and>
     HttpGet facts_url \<in> set evs"
proof -
  have h: "config (cog_load (Some nine_oclock)) = Some nine_oclock \<and>
      fire_time nine_oclock = Inr (at_time 1 0) \<and>
      \<not> (sent_today (cog_load (Some nine_oclock)) \<and>
         sent_date (cog_load (Some nine_oclock)) = Some (today_date (now (tick_at 19000 1 0 bees)))) \<and>
      list_all (\<lambda>e. \<not> time_ge (utcnow_time (now e)) (at_time 1 0))
        [tick_at 19000 0 58 bees, tick_at 19000 0 59 bees] \<and>
      time_ge (utcnow_time (now (tick_at 19000 1 0 bees))) (at_time 1 0)"
    by (simp add: scenario_defs)
  from fires_at_first_due_tick [of "cog_load (Some nine_oclock)" nine_oclock "at_time 1 0" "tick_at 19000 1 0 bees"
      "[tick_at 19000 0 58 bees, tick_at 19000 0 59 bees]"] h
  show ?thesis by blast
qed









text \<open>
  C4, as the code has it. On a tick where the gate fires, the fetch answers with a status
  other than 200, the channel resolves and the delivery works, the text with the status
  code is delivered to the channel and the tick returns with the flag false and the
  recorded date as it was. So after failures on any number of due ticks and a success on
  the next, there is one failure message per failed tick and one trivia embed, and the
  flag is false after every failed tick and true after the last.
\<close>

theorem fetch_failure_retries:
  assumes "config st = Some cfg" and "fire_time cfg = Inr t"
  shows
   "(gate_fires e st \<and> failed_status e = Some k \<and> notifier_ok e cfg ch \<longrightarrow>
       trivia_loop e st =
         (st\<lparr>sent_today := False\<rparr>,
          [HttpGet facts_url, Sent ch (Content (fetch_error_text k))], None)) \<and>
    (\<not> sent_today st \<and>
     list_all (\<lambda>e. time_ge (utcnow_time (now e)) t \<and> notifier_ok e cfg ch) (fails @ [e1]) \<and>
     map failed_status fails = map Some ks \<and> fetched_fact e1 = Some f \<longrightarrow>
       run_ticks st (fails @ [e1]) =
         (st\<lparr>sent_today := True, sent_date := Some (today_date (now e1))\<rparr>,
          map (\<lambda>k. [HttpGet facts_url, Sent ch (Content (fetch_error_text k))]) ks @
            [[HttpGet facts_url, Sent ch (EmbedMsg (trivia_embed f))]],
          None) \<and>
       (\<forall>i. fst (run_ticks st (take i fails)) = st))"
proof (rule conjI; rule impI)
  assume a: "gate_fires e st \<and> failed_status e = Some k \<and> notifier_ok e cfg ch"
  then have "\<not> (sent_today st \<and> sent_date st = Some (today_date (now e)))"
    using assms by (simp add: gate_fires_def)
  then have "day_reset (today_date (now e)) st = st\<lparr>sent_today := False\<rparr>"
    by (rule reset_unsent)
  with a assms show "trivia_loop e st =
         (st\<lparr>sent_today := False\<rparr>,
          [HttpGet facts_url, Sent ch (Content (fetch_error_text k))], None)"
    by (simp add: tick_fires seq_failure)
next
  assume a: "\<not> sent_today st \<and>
     list_all (\<lambda>e. time_ge (utcnow_time (now e)) t \<and> notifier_ok e cfg ch) (fails @ [e1]) \<and>
     map failed_status fails = map Some ks \<and> fetched_fact e1 = Some f"
  then have l: "list_all (\<lambda>e. time_ge (utcnow_time (now e)) t \<and> notifier_ok e cfg ch) fails"
    and e1: "time_ge (utcnow_time (now e1)) t" "notifier_ok e1 cfg ch"
    by simp_all
  have 1: "run_ticks st fails =
     (st, map (\<lambda>k. [HttpGet facts_url, Sent ch (Content (fetch_error_text k))]) ks, None)"
    using assms a l by (intro run_failures [where cfg = cfg and t = t]) simp_all
  have "gate_fires e1 st" using assms a e1 by (simp add: gate_fires_def)
  then have "trivia_loop e1 st = send_sequence e1 cfg st"
    using assms a by (simp add: tick_fires not_sent_reset)
  then have "trivia_loop e1 st =
      (st\<lparr>sent_today := True, sent_date := Some (today_date (now e1))\<rparr>,
       [HttpGet facts_url, Sent ch (EmbedMsg (trivia_embed f))], None)"
    using a e1 by (simp add: seq_success)
  then have 2: "run_ticks st [e1] =
      (st\<lparr>sent_today := True, sent_date := Some (today_date (now e1))\<rparr>,
       [[HttpGet facts_url, Sent ch (EmbedMsg (trivia_embed f))]], None)"
    by simp
  have 3: "fst (run_ticks st (take i fails)) = st" for i
  proof -
    have "list_all (\<lambda>e. time_ge (utcnow_time (now e)) t \<and> notifier_ok e cfg ch) (take i fails)"
      using l by (auto simp: list_all_iff dest: in_set_takeD)
    moreover have "map failed_status (take i fails) = map Some (take i ks)"
      using a by (simp add: take_map [symmetric])
    ultimately have "run_ticks st (take i fails) =
       (st, map (\<lambda>k. [HttpGet facts_url, Sent ch (Content (fetch_error_text k))]) (take i ks), None)"
      using assms a by (intro run_failures [where cfg = cfg and t = t]) simp_all
    then show ?thesis by simp
  qed
  from run_append [OF 1 2] 3
  show "run_ticks st (fails @ [e1]) =
         (st\<lparr>sent_today := True, sent_date := Some (today_date (now e1))\<rparr>,
          map (\<lambda>k. [HttpGet facts_url, Sent ch (Content (fetch_error_text k))]) ks @
            [[HttpGet facts_url, Sent ch (EmbedMsg (trivia_embed f))]],
          None) \<and>
       (\<forall>i. fst (run_ticks st (take i fails)) = st)"
    by simp
qed

theorem fetch_failure_retries_witness:
  "trivia_loop (tick_at 19000 1 0 server_error) (cog_load (Some nine_oclock)) =
     (cog_load (Some nine_oclock),
      [HttpGet facts_url,
       Sent (TextChannel 7) (Content ''An error occurred while fetching trivia. Error code: 500'')],
      None) \<and>
   run_ticks (cog_load (Some nine_oclock))
     [tick_at 19000 1 0 server_error, tick_at 19000 1 1 server_error, tick_at 19000 1 2 bees] =
     ((cog_load (Some nine_oclock))\<lparr>sent_today := True, sent_date := Some 19000\<rparr>,
      [[HttpGet facts_url,
        Sent (TextChannel 7) (Content ''An error occurred while fetching trivia. Error code: 500'')],
       [HttpGet facts_url,
        Sent (TextChannel 7) (Content ''An error occurred while fetching trivia. Error code: 500'')],
       [HttpGet facts_url, Sent (TextChannel 7) (EmbedMsg (trivia_embed (JStr ''Bees can fly.'')))]],
      None)"
proof -
  let ?S = "cog_load (Some nine_oclock)"
  let ?fails = "[tick_at 19000 1 0 server_error, tick_at 19000 1 1 server_error]"
  have c: "config ?S = Some nine_oclock"
    by (simp add: scenario_defs)
  have h1: "gate_fires (tick_at 19000 1 0 server_error) ?S \<and>
      failed_status (tick_at 19000 1 0 server_error) = Some 500 \<and>
      notifier_ok (tick_at 19000 1 0 server_error) nine_oclock (TextChannel 7)"
    by (simp add: scenario_defs)
  have h2: "\<not> sent_today ?S \<and>
      list_all (\<lambda>e. time_ge (utcnow_time (now e)) (at_time 1 0) \<and> notifier_ok e nine_oclock (TextChannel 7))
        (?fails @ [tick_at 19000 1 2 bees]) \<and>
      map failed_status ?fails = map Some [500, 500] \<and>
      fetched_fact (tick_at 19000 1 2 bees) = Some (JStr ''Bees can fly.'')"
    by (simp add: scenario_defs)
  note t = fetch_failure_retries [OF c fire_time_nine, of "tick_at 19000 1 0 server_error" 500 "TextChannel 7"
        ?fails "tick_at 19000 1 2 bees" "[500, 500]" "JStr ''Bees can fly.''"]
  from t h1 have a: "trivia_loop (tick_at 19000 1 0 server_error) ?S =
      (?S\<lparr>sent_today := False\<rparr>,
       [HttpGet facts_url, Sent (TextChannel 7) (Content (fetch_error_text 500))], None)"
    by blast
  from t h2 have b: "run_ticks ?S (?fails @ [tick_at 19000 1 2 bees]) =
      (?S\<lparr>sent_today := True, sent_date := Some (today_date (now (tick_at 19000 1 2 bees)))\<rparr>,
       map (\<lambda>k. [HttpGet facts_url, Sent (TextChannel 7) (Content (fetch_error_text k))]) [500, 500] @
         [[HttpGet facts_url, Sent (TextChannel 7) (EmbedMsg (trivia_embed (JStr ''Bees can fly.'')))]],
       None)"
    by blast
  have d: "today_date (now (tick_at 19000 1 2 bees)) = 19000"
    by (simp add: scenario_defs)
  have s: "?S\<lparr>sent_today := False\<rparr> = ?S"
    by (simp add: cog_load_def)
  show ?thesis
    using a b unfolding d s by (simp add: fetch_error_text_def py_str_500)
qed


text \<open>
  C4 as stated fails: when the configured channel is gone, the tick with a status 500
  delivers nothing and raises \<^verbatim>\<open>AttributeError\<close>.
\<close>

theorem fetch_failure_unresolved_channel:
  "gate_fires (unresolved (tick_at 19000 1 0 server_error)) (cog_load (Some nine_oclock)) \<and>
   failed_status (unresolved (tick_at 19000 1 0 server_error)) = Some 500 \<and>
   trivia_loop (unresolved (tick_at 19000 1 0 server_error)) (cog_load (Some nine_oclock)) =
     (cog_load (Some nine_oclock), [HttpGet facts_url], Some AttributeError)"
  by (simp add: tick_eval scenario_defs)

text \<open>
  C8, as the code has it. Of the failures inside a tick, the loop handles one: a response
  with a status other than 200, when the channel resolves and the message is delivered;
  the tick then returns. A channel that does not resolve, an exception of the delivery, an
  exception of the transport and a stored schedule that \<^verbatim>\<open>strptime\<close> rejects each leave
  the tick as an exception, with no send recorded.
\<close>

theorem tick_failures_propagate:
  assumes "config st = Some cfg"
  shows
   "(gate_fires e st \<and> failed_status e = Some k \<and> notifier_ok e cfg ch \<longrightarrow>
       snd (snd (trivia_loop e st)) = None) \<and>
    (gate_fires e st \<and> (failed_status e = Some k \<or> fetched_fact e = Some f) \<and>
     get_channel e (channel_id cfg) = None \<longrightarrow>
       trivia_loop e st = (st\<lparr>sent_today := False\<rparr>, [HttpGet facts_url], Some AttributeError)) \<and>
    (gate_fires e st \<and> (failed_status e = Some k \<or> fetched_fact e = Some f) \<and>
     get_channel e (channel_id cfg) = Some ch \<and> send_error e = Some err \<longrightarrow>
       trivia_loop e st = (st\<lparr>sent_today := False\<rparr>, [HttpGet facts_url], Some err)) \<and>
    (gate_fires e st \<and> http_response e = Inl err \<longrightarrow>
       trivia_loop e st = (st\<lparr>sent_today := False\<rparr>, [HttpGet facts_url], Some err)) \<and>
    (strptime_HM (schedule cfg) = Inl err \<longrightarrow>
       trivia_loop e st = (day_reset (today_date (now e)) st, [], Some err))"
proof -
  have r: "day_reset (today_date (now e)) st = st\<lparr>sent_today := False\<rparr>" if "gate_fires e st"
    using that assms by (intro reset_unsent) (auto simp: gate_fires_def split: sum.splits)
  have 1: "gate_fires e st \<and> failed_status e = Some k \<and> notifier_ok e cfg ch \<longrightarrow>
       snd (snd (trivia_loop e st)) = None"
    using assms by (auto simp: tick_fires seq_failure)
  have 2: "gate_fires e st \<and> (failed_status e = Some k \<or> fetched_fact e = Some f) \<and>
     get_channel e (channel_id cfg) = None \<longrightarrow>
       trivia_loop e st = (st\<lparr>sent_today := False\<rparr>, [HttpGet facts_url], Some AttributeError)"
    using assms r seq_no_channel [of e cfg k f "st\<lparr>sent_today := False\<rparr>"]
    by (auto simp: tick_fires)
  have 3: "gate_fires e st \<and> (failed_status e = Some k \<or> fetched_fact e = Some f) \<and>
     get_channel e (channel_id cfg) = Some ch \<and> send_error e = Some err \<longrightarrow>
       trivia_loop e st = (st\<lparr>sent_today := False\<rparr>, [HttpGet facts_url], Some err)"
    using assms r seq_send_error [of e cfg ch err k f "st\<lparr>sent_today := False\<rparr>"]
    by (auto simp: tick_fires)
  have 4: "gate_fires e st \<and> http_response e = Inl err \<longrightarrow>
       trivia_loop e st = (st\<lparr>sent_today := False\<rparr>, [HttpGet facts_url], Some err)"
    using assms r by (auto simp: tick_fires seq_transport)
  have 5: "strptime_HM (schedule cfg) = Inl err \<longrightarrow>
       trivia_loop e st = (day_reset (today_date (now e)) st, [], Some err)"
    using assms by (auto simp: tick_bad_schedule fire_time_def get_schedule_def)
  from 1 2 3 4 5 show ?thesis by blast
qed

theorem tick_failures_propagate_witness:
  "snd (snd (trivia_loop (tick_at 19000 1 0 server_error) (cog_load (Some nine_oclock)))) = None \<and>
   trivia_loop (unresolved (tick_at 19000 1 0 server_error)) (cog_load (Some nine_oclock)) =
     (cog_load (Some nine_oclock), [HttpGet facts_url], Some AttributeError) \<and>
   trivia_loop (tick_at 19000 1 0 (Inl RequestException)) (cog_load (Some nine_oclock)) =
     (cog_load (Some nine_oclock), [HttpGet facts_url], Some RequestException) \<and>
   trivia_loop (tick_at 19000 0 0 bees) (cog_load (Some \<lparr>channel_id = 7, schedule = ''24:00''\<rparr>)) =
     (cog_load (Some \<lparr>channel_id = 7, schedule = ''24:00''\<rparr>), [], Some ValueError)"
proof -
  let ?S = "cog_load (Some nine_oclock)"
  let ?B = "cog_load (Some \<lparr>channel_id = 7, schedule = ''24:00''\<rparr>)"
  let ?U = "unresolved (tick_at 19000 1 0 server_error)"
  have c: "config ?S = Some nine_oclock" by (simp add: scenario_defs)
  have b: "config ?B = Some \<lparr>channel_id = 7, schedule = ''24:00''\<rparr>" by (simp add: scenario_defs)
  have s: "?S\<lparr>sent_today := False\<rparr> = ?S" by (simp add: cog_load_def)
  have h1: "gate_fires (tick_at 19000 1 0 server_error) ?S \<and>
      failed_status (tick_at 19000 1 0 server_error) = Some 500 \<and>
      notifier_ok (tick_at 19000 1 0 server_error) nine_oclock (TextChannel 7)"
    by (simp add: scenario_defs)
  have h2: "gate_fires ?U ?S \<and> (failed_status ?U = Some 500 \<or> fetched_fact ?U = Some JNull) \<and>
      get_channel ?U (channel_id nine_oclock) = None"
    by (simp add: scenario_defs)
  have h4: "gate_fires (tick_at 19000 1 0 (Inl RequestException)) ?S \<and>
      http_response (tick_at 19000 1 0 (Inl RequestException)) = Inl RequestException"
    by (simp add: scenario_defs)
  have h5: "strptime_HM (schedule \<lparr>channel_id = 7, schedule = ''24:00''\<rparr>) = Inl ValueError"
    by (simp add: strptime_HM_def re_match_def strptime_regex_def digit_def in_class_def)
  have r: "day_reset (today_date (now (tick_at 19000 0 0 bees))) ?B = ?B"
    by (simp add: day_reset_def cog_load_def)
  from tick_failures_propagate [OF c, where e = "tick_at 19000 1 0 server_error" and k = 500 and ch = "TextChannel 7"] h1
  have 1: "snd (snd (trivia_loop (tick_at 19000 1 0 server_error) ?S)) = None" by blast
  from tick_failures_propagate [OF c, where e = ?U and k = 500 and f = JNull] h2
  have 2: "trivia_loop ?U ?S = (?S\<lparr>sent_today := False\<rparr>, [HttpGet facts_url], Some AttributeError)"
    by blast
  from tick_failures_propagate [OF c, where e = "tick_at 19000 1 0 (Inl RequestException)" and err = RequestException] h4
  have 4: "trivia_loop (tick_at 19000 1 0 (Inl RequestException)) ?S =
      (?S\<lparr>sent_today := False\<rparr>, [HttpGet facts_url], Some RequestException)"
    by blast
  from tick_failures_propagate [OF b, where e = "tick_at 19000 0 0 bees" and err = ValueError] h5
  have 5: "trivia_loop (tick_at 19000 0 0 bees) ?B =
      (day_reset (today_date (now (tick_at 19000 0 0 bees))) ?B, [], Some ValueError)"
    by blast
  from 1 2 4 5 show ?thesis unfolding s r by simp
qed

text \<open>
  C8 as stated fails: with the configured channel gone, the tick at the fire time ends
  with \<^verbatim>\<open>AttributeError\<close>.
\<close>

theorem unresolved_channel_raises:
  "snd (snd (trivia_loop (unresolved (tick_at 19000 1 0 bees)) (cog_load (Some nine_oclock)))) = Some AttributeError"
  by (simp add: tick_eval scenario_defs)

section \<open>The commands\<close>

lemma cache_mirrors_store:
  "config (cog_load row) = db (cog_load row)"
  "config st = db st \<Longrightarrow> config (fst (setup_cmd st ch s)) = db (fst (setup_cmd st ch s))"
  "config st = db st \<Longrightarrow> config (fst (schedule_cmd st s)) = db (fst (schedule_cmd st s))"
  "config st = db st \<Longrightarrow> config (fst (channel_cmd st ch)) = db (fst (channel_cmd st ch))"
  "config st = db st \<Longrightarrow> config (fst (trivia_loop e st)) = db (fst (trivia_loop e st))"
  by (simp_all add: cog_load_def setup_cmd_def schedule_cmd_def channel_cmd_def Let_def
      TriviaDB_get_config_def tick_keeps_config split: option.splits)

text \<open>
  C9. With the configuration set (the row is there and the cog holds its copy), the
  schedule command leaves a configuration that differs from the old one in the schedule
  only, and the channel command one that differs in the channel only.
\<close>

theorem commands_frame:
  "(config st = Some cfg \<and> db st = Some cfg \<longrightarrow>
      fst (schedule_cmd st s) =
        st\<lparr>config := Some (cfg\<lparr>schedule := s\<rparr>), db := Some (cfg\<lparr>schedule := s\<rparr>)\<rparr> \<and>
      channel_id (cfg\<lparr>schedule := s\<rparr>) = channel_id cfg) \<and>
   (config st = Some cfg \<and> db st = Some cfg \<longrightarrow>
      fst (channel_cmd st (TextChannel n)) =
        st\<lparr>config := Some (cfg\<lparr>channel_id := n\<rparr>), db := Some (cfg\<lparr>channel_id := n\<rparr>)\<rparr> \<and>
      schedule (cfg\<lparr>channel_id := n\<rparr>) = schedule cfg)"
  by (auto simp: schedule_cmd_def channel_cmd_def bool_is_None_def Let_def
      TriviaDB_update_def TriviaDB_get_config_def intro: cog.equality)

theorem commands_frame_witness:
  "config (cog_load (Some nine_oclock)) = Some nine_oclock \<and>
   db (cog_load (Some nine_oclock)) = Some nine_oclock \<and>
   fst (schedule_cmd (cog_load (Some nine_oclock)) ''10:30'') =
     cog_load (Some \<lparr>channel_id = 7, schedule = ''10:30''\<rparr>) \<and>
   fst (channel_cmd (cog_load (Some nine_oclock)) (TextChannel 8)) =
     cog_load (Some \<lparr>channel_id = 8, schedule = ''09:00''\<rparr>)"
proof -
  have h: "config (cog_load (Some nine_oclock)) = Some nine_oclock \<and>
      db (cog_load (Some nine_oclock)) = Some nine_oclock"
    by (simp add: cog_load_def TriviaDB_get_config_def)
  from commands_frame [of "cog_load (Some nine_oclock)" nine_oclock "''10:30''" 8] h
  have "fst (schedule_cmd (cog_load (Some nine_oclock)) ''10:30'') =
      (cog_load (Some nine_oclock))\<lparr>config := Some (nine_oclock\<lparr>schedule := ''10:30''\<rparr>),
        db := Some (nine_oclock\<lparr>schedule := ''10:30''\<rparr>)\<rparr>"
    and "fst (channel_cmd (cog_load (Some nine_oclock)) (TextChannel 8)) =
      (cog_load (Some nine_oclock))\<lparr>config := Some (nine_oclock\<lparr>channel_id := 8\<rparr>),
        db := Some (nine_oclock\<lparr>channel_id := 8\<rparr>)\<rparr>"
    by blast+
  with h show ?thesis
    by (simp add: cog_load_def TriviaDB_get_config_def nine_oclock_def)
qed

text \<open>
  C2 fails on the code. \<^verbatim>\<open>_check_time\<close> rejects \<^verbatim>\<open>24:00\<close> and \<^verbatim>\<open>abc\<close>, but the
  commands compare its result with \<^verbatim>\<open>None\<close>, so the rejection never happens: setup
  stores \<^verbatim>\<open>24:00\<close> and the schedule command stores \<^verbatim>\<open>abc\<close>, each with the reply of a
  success.
\<close>

theorem malformed_schedule_is_stored:
  "\<not> check_time ''24:00'' \<and>
   setup_cmd (cog_load None) (TextChannel 7) ''24:00'' =
     (cog_load (Some \<lparr>channel_id = 7, schedule = ''24:00''\<rparr>), ''Trivia setup'') \<and>
   \<not> check_time ''abc'' \<and>
   schedule_cmd (cog_load (Some nine_oclock)) ''abc'' =
     (cog_load (Some \<lparr>channel_id = 7, schedule = ''abc''\<rparr>), ''Trivia session scheduled at abc'')"
  by (simp add: check_time_5 check_time_short setup_cmd_def schedule_cmd_def cog_load_def
      TriviaDB_get_config_def TriviaDB_insert_def TriviaDB_update_def bool_is_None_def
      nine_simps is_digit_def digit_val_def Let_def)



end
